theory Spec2Isabelle
  imports Main
begin

section \<open>The VideoCall component: data model\<close>

text \<open>
  The component \<open>VideoCall\<close> keeps its state in React state cells (\<open>peers\<close>,
  \<open>localStream\<close>, \<open>screenStream\<close>, \<open>isMuted\<close>, \<open>isVideoOff\<close>, \<open>isScreenSharing\<close>) and in
  refs (\<open>pcRef\<close>, \<open>joinSentRef\<close>). The browser objects it drives (media tracks, media
  streams, peer connections) are external: a track records its \<open>enabled\<close> flag and how
  many \<open>stop()\<close> calls it has received, a peer connection records the calls the transport
  has accepted on it, in order. What the browser answers (whether a capture is granted,
  whether the transport accepts a call, which description \<open>createOffer\<close> produces) is the
  environment \<open>env\<close> of a handler run.

  Every handler is modelled as running to its end (or to its first rejected await) before
  the next event is taken. A handler that throws keeps the changes it has made so far;
  \<open>new RTCPeerConnection\<close>, \<open>close()\<close> and \<open>stop()\<close> are taken not to throw. The cleanup of
  the mount effect (run when the component is unmounted) and the \<open>onended\<close> callback of
  a display stream are outside the model.
\<close>

datatype track_kind = Audio | Video

record track =
  track_id :: nat
  kind :: track_kind
  enabled :: bool
  stop_calls :: nat

record stream =
  stream_id :: nat
  tracks :: "track list"

type_synonym sdp = nat
type_synonym cand = nat

text \<open>The calls the component makes on an \<open>RTCPeerConnection\<close>. \<open>AddTrack t st\<close> carries the
  identifiers of the track and of its stream.\<close>

datatype pc_call =
    AddTrack nat nat
  | CreateOffer
  | CreateAnswer
  | SetLocalDescription sdp
  | SetRemoteDescription "sdp option"
  | AddIceCandidate cand
  | Close

record pc =
  pc_handle :: nat
  calls :: "pc_call list"

text \<open>A signaling message is a JSON object; an absent field is \<open>None\<close>. \<open>from_user\<close> is
  \<open>from_user?.id\<close>.\<close>

record signal =
  type :: string
  from_user :: "nat option"
  offer :: "sdp option"
  answer :: "sdp option"
  candidate :: "cand option"
  to_user :: "nat option"
  user_id :: "nat option"

datatype error = MediaError | TransportError pc_call

record env =
  user_media :: "stream option"
  display_media :: "stream option"
  accepts :: "pc \<Rightarrow> pc_call \<Rightarrow> bool"
  new_offer :: "pc \<Rightarrow> sdp"
  new_answer :: "pc \<Rightarrow> sdp"

text \<open>\<open>user\<close> is \<open>user?.id\<close>; \<open>sent\<close> lists the messages handed to \<open>send\<close>; \<open>next_pc\<close> numbers
  the connection objects made by \<open>new RTCPeerConnection\<close>; \<open>gum_calls\<close> counts the calls of
  \<open>getUserMedia\<close>; \<open>console\<close> lists the \<open>console.error\<close> lines; \<open>onClose_calls\<close> counts the
  calls of the \<open>onClose\<close> prop.\<close>

record state =
  user :: "nat option"
  peers :: "nat \<rightharpoonup> nat option"
  localStream :: "stream option"
  screenStream :: "stream option"
  isMuted :: bool
  isVideoOff :: bool
  isScreenSharing :: bool
  pcRef :: "nat \<rightharpoonup> pc"
  joinSentRef :: bool
  connected :: bool
  sent :: "signal list"
  next_pc :: nat
  gum_calls :: nat
  console :: "string list"
  onClose_calls :: nat

section \<open>Peer connections\<close>

definition createPeerConnection :: "nat \<Rightarrow> state \<Rightarrow> pc \<times> state" where
  "createPeerConnection peerId s =
     (case pcRef s peerId of
        Some p \<Rightarrow> (p, s)
      | None \<Rightarrow>
          (let p = \<lparr>pc_handle = next_pc s, calls = []\<rparr>
           in (p, s\<lparr>pcRef := (pcRef s)(peerId \<mapsto> p), next_pc := Suc (next_pc s)\<rparr>)))"

text \<open>One call on a connection: the transport accepts it, and the connection records it,
  or the call throws and the connection is as before.\<close>

definition pc_do :: "env \<Rightarrow> pc_call \<Rightarrow> pc \<Rightarrow> error + pc" where
  "pc_do e c p = (if accepts e p c then Inr (p\<lparr>calls := calls p @ [c]\<rparr>) else Inl (TransportError c))"

text \<open>\<open>stream.getTracks().forEach((t) => pc.addTrack(t, stream))\<close>: the loop stops at the
  first call that throws; the tracks added before it stay on the connection.\<close>

fun addTracks :: "env \<Rightarrow> nat \<Rightarrow> track list \<Rightarrow> pc \<Rightarrow> pc \<times> error option" where
  "addTracks e sid [] p = (p, None)"
| "addTracks e sid (t # ts) p =
     (case pc_do e (AddTrack (track_id t) sid) p of
        Inl err \<Rightarrow> (p, Some err)
      | Inr p' \<Rightarrow> addTracks e sid ts p')"

text \<open>\<open>localStream || (await getUserMedia(\<dots>))\<close>, then \<open>if (!localStream) setLocalStream(stream)\<close>.\<close>

definition acquire :: "env \<Rightarrow> state \<Rightarrow> stream option \<times> state" where
  "acquire e s =
     (case localStream s of
        Some st \<Rightarrow> (Some st, s)
      | None \<Rightarrow>
          (case user_media e of
             None \<Rightarrow> (None, s\<lparr>gum_calls := Suc (gum_calls s)\<rparr>)
           | Some st \<Rightarrow> (Some st, s\<lparr>localStream := Some st, gum_calls := Suc (gum_calls s)\<rparr>)))"

definition store_pc :: "nat \<Rightarrow> pc \<Rightarrow> state \<Rightarrow> state" where
  "store_pc peerId p s = s\<lparr>pcRef := (pcRef s)(peerId \<mapsto> p)\<rparr>"

definition send :: "signal \<Rightarrow> state \<Rightarrow> state" where
  "send m s = s\<lparr>sent := sent s @ [m]\<rparr>"

definition blank :: signal where
  "blank = \<lparr>type = [], from_user = None, offer = None, answer = None, candidate = None,
            to_user = None, user_id = None\<rparr>"

text \<open>The \<open>join\<close> branch after the stream is known: add the tracks, create the offer, set it
  as local description, send it.\<close>

definition offer_to :: "env \<Rightarrow> nat \<Rightarrow> stream \<Rightarrow> pc \<Rightarrow> state \<Rightarrow> state \<times> error option" where
  "offer_to e peerId st p s =
     (case addTracks e (stream_id st) (tracks st) p of
        (p1, Some err) \<Rightarrow> (store_pc peerId p1 s, Some err)
      | (p1, None) \<Rightarrow>
          (case pc_do e CreateOffer p1 of
             Inl err \<Rightarrow> (store_pc peerId p1 s, Some err)
           | Inr p2 \<Rightarrow>
               (case pc_do e (SetLocalDescription (new_offer e p1)) p2 of
                  Inl err \<Rightarrow> (store_pc peerId p2 s, Some err)
                | Inr p3 \<Rightarrow>
                    (send (blank\<lparr>type := ''offer'', offer := Some (new_offer e p1),
                                 to_user := Some peerId\<rparr>)
                       (store_pc peerId p3 s), None))))"

text \<open>The \<open>offer\<close> branch after the stream is known: add the tracks, set the remote
  description, create the answer, set it as local description, send it.\<close>

definition answer_to :: "env \<Rightarrow> nat \<Rightarrow> sdp option \<Rightarrow> stream \<Rightarrow> pc \<Rightarrow> state \<Rightarrow> state \<times> error option" where
  "answer_to e peerId off st p s =
     (case addTracks e (stream_id st) (tracks st) p of
        (p1, Some err) \<Rightarrow> (store_pc peerId p1 s, Some err)
      | (p1, None) \<Rightarrow>
          (case pc_do e (SetRemoteDescription off) p1 of
             Inl err \<Rightarrow> (store_pc peerId p1 s, Some err)
           | Inr p2 \<Rightarrow>
               (case pc_do e CreateAnswer p2 of
                  Inl err \<Rightarrow> (store_pc peerId p2 s, Some err)
                | Inr p3 \<Rightarrow>
                    (case pc_do e (SetLocalDescription (new_answer e p2)) p3 of
                       Inl err \<Rightarrow> (store_pc peerId p3 s, Some err)
                     | Inr p4 \<Rightarrow>
                         (send (blank\<lparr>type := ''answer'', answer := Some (new_answer e p2),
                                      to_user := Some peerId\<rparr>)
                            (store_pc peerId p4 s), None)))))"

text \<open>The \<open>user_left\<close> branch: close and delete the connection of \<open>data.user_id\<close> when there
  is one, and delete its entry of \<open>peers\<close>.\<close>

definition user_left :: "nat option \<Rightarrow> state \<Rightarrow> state" where
  "user_left pid s =
     (case pid of
        None \<Rightarrow> s
      | Some q \<Rightarrow> s\<lparr>pcRef := (pcRef s)(q := None), peers := (peers s)(q := None)\<rparr>)"

section \<open>The signaling handler\<close>

definition handleSignal :: "env \<Rightarrow> signal \<Rightarrow> state \<Rightarrow> state \<times> error option" where
  "handleSignal e data s =
     (case from_user data of
        None \<Rightarrow> (s, None)
      | Some peerId \<Rightarrow>
          if peerId = 0 \<or> Some peerId = user s then (s, None)
          else if type data = ''join'' then
            (case acquire e s of
               (None, s1) \<Rightarrow> (s1, Some MediaError)
             | (Some st, s1) \<Rightarrow>
                 (case createPeerConnection peerId s1 of
                    (p, s2) \<Rightarrow> offer_to e peerId st p s2))
          else if type data = ''offer'' \<and> to_user data = user s then
            (case createPeerConnection peerId s of
               (p, s1) \<Rightarrow>
                 (case acquire e s1 of
                    (None, s2) \<Rightarrow> (s2, Some MediaError)
                  | (Some st, s2) \<Rightarrow> answer_to e peerId (offer data) st p s2))
          else if type data = ''answer'' \<and> to_user data = user s then
            (case pcRef s peerId of
               None \<Rightarrow> (s, None)
             | Some p \<Rightarrow>
                 (case pc_do e (SetRemoteDescription (answer data)) p of
                    Inl err \<Rightarrow> (s, Some err)
                  | Inr p' \<Rightarrow> (store_pc peerId p' s, None)))
          else if type data = ''ice-candidate'' \<and> candidate data \<noteq> None \<and> to_user data = user s then
            (case (pcRef s peerId, candidate data) of
               (Some p, Some c) \<Rightarrow>
                 (case pc_do e (AddIceCandidate c) p of
                    Inl err \<Rightarrow> (s, Some err)
                  | Inr p' \<Rightarrow> (store_pc peerId p' s, None))
             | _ \<Rightarrow> (s, None))
          else if type data = ''user_left'' then (user_left (user_id data) s, None)
          else (s, None))"

section \<open>Effects and user intents\<close>

text \<open>The mount effect: \<open>getUserMedia\<close>, then \<open>setLocalStream\<close>; a failure is caught and
  written to the console.\<close>

definition start :: "env \<Rightarrow> state \<Rightarrow> state" where
  "start e s =
     (case user_media e of
        Some st \<Rightarrow> s\<lparr>localStream := Some st, gum_calls := Suc (gum_calls s)\<rparr>
      | None \<Rightarrow> s\<lparr>gum_calls := Suc (gum_calls s), console := console s @ [''Media error:'']\<rparr>)"

text \<open>The effect on \<open>[connected, localStream, send]\<close>. Its body changes nothing unless its
  condition holds, so running it after every event gives the same states as running it
  after the events that change one of the three.\<close>

definition joinEffect :: "state \<Rightarrow> state" where
  "joinEffect s =
     (if connected s \<and> localStream s \<noteq> None \<and> \<not> joinSentRef s
      then send (blank\<lparr>type := ''join''\<rparr>) (s\<lparr>joinSentRef := True\<rparr>)
      else s)"

definition set_enabled :: "track_kind \<Rightarrow> bool \<Rightarrow> stream \<Rightarrow> stream" where
  "set_enabled k b st =
     st\<lparr>tracks := map (\<lambda>t. if kind t = k then t\<lparr>enabled := b\<rparr> else t) (tracks st)\<rparr>"

definition toggleMute :: "state \<Rightarrow> state" where
  "toggleMute s =
     s\<lparr>localStream := map_option (set_enabled Audio (isMuted s)) (localStream s),
       isMuted := \<not> isMuted s\<rparr>"

definition toggleVideo :: "state \<Rightarrow> state" where
  "toggleVideo s =
     s\<lparr>localStream := map_option (set_enabled Video (isVideoOff s)) (localStream s),
       isVideoOff := \<not> isVideoOff s\<rparr>"

definition stop :: "track \<Rightarrow> track" where
  "stop t = t\<lparr>stop_calls := Suc (stop_calls t)\<rparr>"

definition stop_tracks :: "stream \<Rightarrow> stream" where
  "stop_tracks st = st\<lparr>tracks := map stop (tracks st)\<rparr>"

text \<open>\<open>getDisplayMedia\<close>, then the two state setters, then the \<open>onended\<close> handler is put on
  the first video track; with no video track that assignment throws, and the \<open>catch\<close>
  writes to the console.\<close>

definition startScreenShare :: "env \<Rightarrow> state \<Rightarrow> state" where
  "startScreenShare e s =
     (case display_media e of
        None \<Rightarrow> s\<lparr>console := console s @ [''Screen share failed:'']\<rparr>
      | Some st \<Rightarrow>
          (let s1 = s\<lparr>screenStream := Some st, isScreenSharing := True\<rparr>
           in if filter (\<lambda>t. kind t = Video) (tracks st) = []
              then s1\<lparr>console := console s1 @ [''Screen share failed:'']\<rparr>
              else s1))"

definition stopScreenShare :: "state \<Rightarrow> state" where
  "stopScreenShare s = s\<lparr>screenStream := None, isScreenSharing := False\<rparr>"

definition close :: "pc \<Rightarrow> pc" where
  "close p = p\<lparr>calls := calls p @ [Close]\<rparr>"

definition hangUp :: "state \<Rightarrow> state" where
  "hangUp s =
     s\<lparr>localStream := map_option stop_tracks (localStream s),
       screenStream := map_option stop_tracks (screenStream s),
       pcRef := (\<lambda>k. map_option close (pcRef s k)),
       onClose_calls := Suc (onClose_calls s)\<rparr>"

text \<open>The two callbacks a connection of \<open>peerId\<close> carries.\<close>

definition ontrack :: "nat \<Rightarrow> nat option \<Rightarrow> state \<Rightarrow> state" where
  "ontrack peerId remote s = s\<lparr>peers := (peers s)(peerId \<mapsto> remote)\<rparr>"

definition onicecandidate :: "nat \<Rightarrow> cand option \<Rightarrow> state \<Rightarrow> state" where
  "onicecandidate peerId c s =
     (case c of
        None \<Rightarrow> s
      | Some x \<Rightarrow> send (blank\<lparr>type := ''ice-candidate'', candidate := Some x,
                              to_user := Some peerId\<rparr>) s)"

section \<open>Runs of the component\<close>

datatype event =
    Mount
  | SocketConnected bool
  | Signal signal
  | ToggleMute
  | ToggleVideo
  | StartScreenShare
  | StopScreenShare
  | HangUp
  | OnTrack nat "nat option"
  | OnIceCandidate nat "cand option"

fun handle :: "env \<Rightarrow> event \<Rightarrow> state \<Rightarrow> state" where
  "handle e Mount s = start e s"
| "handle e (SocketConnected b) s = s\<lparr>connected := b\<rparr>"
| "handle e (Signal data) s = fst (handleSignal e data s)"
| "handle e ToggleMute s = toggleMute s"
| "handle e ToggleVideo s = toggleVideo s"
| "handle e StartScreenShare s = startScreenShare e s"
| "handle e StopScreenShare s = stopScreenShare s"
| "handle e HangUp s = hangUp s"
| "handle e (OnTrack peerId remote) s = ontrack peerId remote s"
| "handle e (OnIceCandidate peerId c) s = onicecandidate peerId c s"

text \<open>One event: its handler, taken to its end, then the render's effects. In the
  component a handler that sets \<open>localStream\<close> and then awaits lets the announcing effect run
  before the handler's later sends; so the place of \<open>join\<close> among the messages of one
  step is not meaningful here, only which messages are sent and how many. No statement
  below rests on that place.\<close>

definition step :: "env \<times> event \<Rightarrow> state \<Rightarrow> state" where
  "step ev s = joinEffect (handle (fst ev) (snd ev) s)"

fun run :: "(env \<times> event) list \<Rightarrow> state \<Rightarrow> state" where
  "run [] s = s"
| "run (ev # evs) s = run evs (step ev s)"

text \<open>A run of signaling messages alone, handled one at a time: each handler has finished
  before the next message is taken, and a handler that fails leaves the state it had
  reached. With the local stream held, \<open>localStream || \<dots>\<close> does not await, so the \<open>join\<close>
  and the \<open>offer\<close> branch reach \<open>createPeerConnection\<close> before their first await and
  \<open>user_left\<close> never awaits. With no stream held, the \<open>join\<close> branch waits for
  \<open>getUserMedia\<close> before it makes the connection, and a message handled meanwhile is
  outside what such a run describes; the statement on the keys of the peer map below
  is made for a held stream.\<close>

fun run_signals :: "(env \<times> signal) list \<Rightarrow> state \<Rightarrow> state" where
  "run_signals [] s = s"
| "run_signals (m # ms) s = run_signals ms (fst (handleSignal (fst m) (snd m) s))"

text \<open>The state of the first render, for the local participant \<open>u\<close>.\<close>

definition initial :: "nat option \<Rightarrow> state" where
  "initial u =
     \<lparr>user = u, peers = Map.empty, localStream = None, screenStream = None, isMuted = False,
      isVideoOff = False, isScreenSharing = False, pcRef = Map.empty, joinSentRef = False,
      connected = False, sent = [], next_pc = 0, gum_calls = 0, console = [],
      onClose_calls = 0\<rparr>"

section \<open>Notions used in the statements\<close>

text \<open>Two tracks that differ at most in their \<open>enabled\<close> flag.\<close>

definition same_track_but_enabled :: "track \<Rightarrow> track \<Rightarrow> bool" where
  "same_track_but_enabled t t' \<longleftrightarrow>
     track_id t' = track_id t \<and> kind t' = kind t \<and> stop_calls t' = stop_calls t"

definition ended :: "track \<Rightarrow> bool" where
  "ended t \<longleftrightarrow> 0 < stop_calls t"

definition closed :: "pc \<Rightarrow> bool" where
  "closed p \<longleftrightarrow> Close \<in> set (calls p)"

text \<open>A state without the numbers of release calls: which tracks have ended and which
  connections are closed, not how many times they were told to.\<close>

definition terminal_view :: "state \<Rightarrow> state" where
  "terminal_view s =
     s\<lparr>localStream := map_option (\<lambda>st. st\<lparr>tracks := map (\<lambda>t. t\<lparr>stop_calls := (if ended t then 1 else 0)\<rparr>) (tracks st)\<rparr>) (localStream s),
       screenStream := map_option (\<lambda>st. st\<lparr>tracks := map (\<lambda>t. t\<lparr>stop_calls := (if ended t then 1 else 0)\<rparr>) (tracks st)\<rparr>) (screenStream s),
       pcRef := (\<lambda>k. map_option (\<lambda>p. p\<lparr>calls := filter (\<lambda>c. c \<noteq> Close) (calls p) @ (if closed p then [Close] else [])\<rparr>) (pcRef s k)),
       onClose_calls := 0\<rparr>"

text \<open>The connection \<open>p'\<close> is the connection \<open>old\<close> (a new one when \<open>old\<close> is \<open>None\<close>) with
  further calls, none of them \<open>close()\<close>.\<close>

definition extends :: "pc option \<Rightarrow> pc \<Rightarrow> bool" where
  "extends old p' \<longleftrightarrow>
     (\<exists>cs. Close \<notin> set cs \<and>
        (case old of
           None \<Rightarrow> calls p' = cs
         | Some p \<Rightarrow> pc_handle p' = pc_handle p \<and> calls p' = calls p @ cs))"

text \<open>The transport accepts the calls \<open>cs\<close>, one after the other, on the connection \<open>p\<close>.\<close>

fun all_accepted :: "env \<Rightarrow> pc_call list \<Rightarrow> pc \<Rightarrow> bool" where
  "all_accepted e [] p = True"
| "all_accepted e (c # cs) p = (accepts e p c \<and> all_accepted e cs (p\<lparr>calls := calls p @ [c]\<rparr>))"

text \<open>The \<open>addTrack\<close> calls for the tracks of a stream.\<close>

definition track_calls :: "stream \<Rightarrow> pc_call list" where
  "track_calls st = map (\<lambda>t. AddTrack (track_id t) (stream_id st)) (tracks st)"

section \<open>Example values\<close>

text \<open>A camera stream, a display stream, and six environments: \<open>lenient\<close> grants every
  capture and accepts every call; \<open>denied\<close> refuses the camera; \<open>no_display\<close> refuses the
  display capture; \<open>strict\<close> rejects a candidate on a connection with no remote description
  (section 4.3 of the specification: applying a candidate before the remote description
  is set is an error in the underlying transport); \<open>rejecting\<close> rejects every remote
  description and every candidate; \<open>exclusive\<close> rejects \<open>addTrack\<close> for a track the
  connection already carries, as \<open>RTCPeerConnection.addTrack\<close> does (it throws
  \<open>InvalidAccessError\<close> when a sender for the track exists).\<close>

definition cam :: stream where
  "cam = \<lparr>stream_id = 10, tracks =
     [\<lparr>track_id = 11, kind = Audio, enabled = True, stop_calls = 0\<rparr>,
      \<lparr>track_id = 12, kind = Video, enabled = True, stop_calls = 0\<rparr>]\<rparr>"

definition screen :: stream where
  "screen = \<lparr>stream_id = 20, tracks =
     [\<lparr>track_id = 21, kind = Video, enabled = True, stop_calls = 0\<rparr>]\<rparr>"

definition lenient :: env where
  "lenient = \<lparr>user_media = Some cam, display_media = Some screen, accepts = (\<lambda>p c. True),
              new_offer = (\<lambda>p. 100 + pc_handle p), new_answer = (\<lambda>p. 200 + pc_handle p)\<rparr>"

definition denied :: env where
  "denied = lenient\<lparr>user_media := None\<rparr>"

definition no_display :: env where
  "no_display = lenient\<lparr>display_media := None\<rparr>"

definition exclusive :: env where
  "exclusive = lenient\<lparr>accepts := (\<lambda>p c. case c of AddTrack t st \<Rightarrow> c \<notin> set (calls p) | _ \<Rightarrow> True)\<rparr>"

definition has_remote :: "pc \<Rightarrow> bool" where
  "has_remote p = list_ex (\<lambda>c. case c of SetRemoteDescription d \<Rightarrow> True | _ \<Rightarrow> False) (calls p)"

definition strict :: env where
  "strict = lenient\<lparr>accepts := (\<lambda>p c. case c of AddIceCandidate x \<Rightarrow> has_remote p | _ \<Rightarrow> True)\<rparr>"

definition rejecting :: env where
  "rejecting = lenient\<lparr>accepts := (\<lambda>p c. case c of SetRemoteDescription d \<Rightarrow> False
                                              | AddIceCandidate x \<Rightarrow> False | _ \<Rightarrow> True)\<rparr>"

definition join_from :: "nat \<Rightarrow> signal" where
  "join_from p = blank\<lparr>type := ''join'', from_user := Some p\<rparr>"

definition offer_from :: "nat \<Rightarrow> nat \<Rightarrow> sdp \<Rightarrow> signal" where
  "offer_from p u d = blank\<lparr>type := ''offer'', from_user := Some p, offer := Some d, to_user := Some u\<rparr>"

definition answer_from :: "nat \<Rightarrow> nat \<Rightarrow> sdp \<Rightarrow> signal" where
  "answer_from p u d = blank\<lparr>type := ''answer'', from_user := Some p, answer := Some d, to_user := Some u\<rparr>"

definition candidate_from :: "nat \<Rightarrow> nat \<Rightarrow> cand \<Rightarrow> signal" where
  "candidate_from p u c =
     blank\<lparr>type := ''ice-candidate'', from_user := Some p, candidate := Some c, to_user := Some u\<rparr>"

definition left_from :: "nat \<Rightarrow> nat \<Rightarrow> signal" where
  "left_from p q = blank\<lparr>type := ''user_left'', from_user := Some p, user_id := Some q\<rparr>"

text \<open>Participant 1 in a call: media held, channel connected, \<open>join\<close> announced.\<close>

definition in_call :: state where
  "in_call = run [(lenient, Mount), (lenient, SocketConnected True)] (initial (Some 1))"

section \<open>Notions used in the statements on runs\<close>

text \<open>The number of \<open>join\<close> messages handed to \<open>send\<close> so far.\<close>

definition join_count :: "state \<Rightarrow> nat" where
  "join_count s = length (filter (\<lambda>m. type m = ''join'') (sent s))"

text \<open>The condition of the announcing effect, but for its own flag.\<close>

definition gate_open :: "state \<Rightarrow> bool" where
  "gate_open s \<longleftrightarrow> connected s \<and> localStream s \<noteq> None"

text \<open>The flag \<open>joinSentRef\<close> agrees with what has been sent.\<close>

definition announced :: "state \<Rightarrow> bool" where
  "announced s \<longleftrightarrow> (if joinSentRef s then join_count s = 1 else join_count s = 0)"

text \<open>What a message does to the keys of \<open>pcRef\<close>, read off the handler: a \<open>join\<close>, or an
  \<open>offer\<close> addressed to the local participant \<open>u\<close>, from a sender that passes the guard
  (\<open>from_user.id\<close> truthy and not \<open>u\<close>), makes the sender's key; a \<open>user_left\<close> from such a
  sender deletes the key \<open>user_id\<close>.\<close>

definition opens :: "nat option \<Rightarrow> signal \<Rightarrow> nat \<Rightarrow> bool" where
  "opens u m p \<longleftrightarrow>
     from_user m = Some p \<and> p \<noteq> 0 \<and> Some p \<noteq> u \<and>
     (type m = ''join'' \<or> (type m = ''offer'' \<and> to_user m = u))"

definition removes :: "nat option \<Rightarrow> signal \<Rightarrow> nat \<Rightarrow> bool" where
  "removes u m p \<longleftrightarrow>
     (case from_user m of None \<Rightarrow> False | Some q \<Rightarrow> q \<noteq> 0 \<and> Some q \<noteq> u) \<and>
     type m = ''user_left'' \<and> user_id m = Some p"

text \<open>The peer set as the specification words it (section 8): a participant is in it
  when it has sent a message other than \<open>Left\<close> and no \<open>Left\<close> names it since.\<close>

fun spec_peer_set :: "signal list \<Rightarrow> nat set \<Rightarrow> nat set" where
  "spec_peer_set [] S = S"
| "spec_peer_set (m # ms) S =
     spec_peer_set ms
       (if type m = ''user_left'' then S - set_option (user_id m)
        else S \<union> set_option (from_user m))"

section \<open>Evaluation of the examples\<close>

lemmas ex_defs = cam_def screen_def lenient_def denied_def join_from_def offer_from_def
  answer_from_def candidate_from_def left_from_def in_call_def initial_def blank_def
  has_remote_def strict_def rejecting_def track_calls_def
  no_display_def exclusive_def

lemmas code_defs = step_def start_def joinEffect_def send_def handleSignal_def acquire_def
  createPeerConnection_def offer_to_def answer_to_def pc_do_def store_pc_def user_left_def
  toggleMute_def toggleVideo_def set_enabled_def startScreenShare_def stopScreenShare_def
  hangUp_def stop_tracks_def stop_def close_def ontrack_def onicecandidate_def Let_def

section \<open>Mute and camera\<close>

lemma set_enabled_same:
  "stream_id (set_enabled k b st) = stream_id st \<and>
   list_all2 same_track_but_enabled (tracks st) (tracks (set_enabled k b st))"
  by (simp add: set_enabled_def list_all2_map2 same_track_but_enabled_def list.rel_refl)

text \<open>
  C8. In a state with a local stream, \<open>toggleMute\<close> and \<open>toggleVideo\<close> change nothing but
  the local stream and their own flag; the stream they leave has the same handle and the
  same tracks up to the \<open>enabled\<close> flags; \<open>getUserMedia\<close> is not called. Muting and then
  unmuting gives back the state with, at most, other \<open>enabled\<close> flags.
\<close>

theorem toggle_keeps_stream:
  assumes "localStream s = Some st"
  shows "(\<exists>st'. toggleMute s = s\<lparr>localStream := Some st', isMuted := \<not> isMuted s\<rparr> \<and>
            stream_id st' = stream_id st \<and>
            list_all2 same_track_but_enabled (tracks st) (tracks st')) \<and>
         (\<exists>st'. toggleVideo s = s\<lparr>localStream := Some st', isVideoOff := \<not> isVideoOff s\<rparr> \<and>
            stream_id st' = stream_id st \<and>
            list_all2 same_track_but_enabled (tracks st) (tracks st')) \<and>
         (\<exists>st'. toggleMute (toggleMute s) = s\<lparr>localStream := Some st'\<rparr> \<and>
            stream_id st' = stream_id st \<and>
            list_all2 same_track_but_enabled (tracks st) (tracks st')) \<and>
         gum_calls (toggleMute s) = gum_calls s \<and> gum_calls (toggleVideo s) = gum_calls s"
proof -
  have a: "\<exists>st'. toggleMute s = s\<lparr>localStream := Some st', isMuted := \<not> isMuted s\<rparr> \<and>
            stream_id st' = stream_id st \<and>
            list_all2 same_track_but_enabled (tracks st) (tracks st')"
    using assms set_enabled_same [of Audio "isMuted s" st]
    by (intro exI [of _ "set_enabled Audio (isMuted s) st"]) (simp add: toggleMute_def)
  have b: "\<exists>st'. toggleVideo s = s\<lparr>localStream := Some st', isVideoOff := \<not> isVideoOff s\<rparr> \<and>
            stream_id st' = stream_id st \<and>
            list_all2 same_track_but_enabled (tracks st) (tracks st')"
    using assms set_enabled_same [of Video "isVideoOff s" st]
    by (intro exI [of _ "set_enabled Video (isVideoOff s) st"]) (simp add: toggleVideo_def)
  let ?st2 = "set_enabled Audio (\<not> isMuted s) (set_enabled Audio (isMuted s) st)"
  have "list_all2 same_track_but_enabled (tracks st) (tracks ?st2)"
    by (simp add: set_enabled_def list_all2_map2 same_track_but_enabled_def list.rel_refl o_def)
  then have c: "\<exists>st'. toggleMute (toggleMute s) = s\<lparr>localStream := Some st'\<rparr> \<and>
            stream_id st' = stream_id st \<and>
            list_all2 same_track_but_enabled (tracks st) (tracks st')"
    using assms
    by (intro exI [of _ ?st2]) (simp add: toggleMute_def set_enabled_def)
  show ?thesis using a b c by (simp add: toggleMute_def toggleVideo_def)
qed

theorem toggle_keeps_stream_witness:
  "localStream in_call = Some cam \<and>
   map_option stream_id (localStream (toggleMute in_call)) = Some 10 \<and>
   map_option (map enabled \<circ> tracks) (localStream (toggleMute in_call)) = Some [False, True] \<and>
   map_option (map enabled \<circ> tracks) (localStream (toggleMute (toggleMute in_call))) = Some [True, True] \<and>
   gum_calls (toggleMute in_call) = gum_calls in_call"
  using toggle_keeps_stream [of in_call cam] by (simp add: ex_defs code_defs)

text \<open>
  C9, as the code has it. With no local stream, \<open>toggleMute\<close> touches no track and acquires
  nothing, but it still flips \<open>isMuted\<close>, which the mute button shows; \<open>toggleVideo\<close> does the
  same with \<open>isVideoOff\<close>. Nothing else changes.
\<close>

theorem toggle_without_stream:
  assumes "localStream s = None"
  shows "toggleMute s = s\<lparr>isMuted := \<not> isMuted s\<rparr> \<and>
         toggleVideo s = s\<lparr>isVideoOff := \<not> isVideoOff s\<rparr>"
  using assms by (simp add: toggleMute_def toggleVideo_def)

theorem toggle_without_stream_witness:
  "localStream (initial (Some 1)) = None \<and>
   toggleMute (initial (Some 1)) = (initial (Some 1))\<lparr>isMuted := True\<rparr> \<and>
   toggleVideo (initial (Some 1)) = (initial (Some 1))\<lparr>isVideoOff := True\<rparr>"
  using toggle_without_stream [of "initial (Some 1)"] by (simp add: initial_def)

text \<open>The first render has no local stream, and a click on either button changes the
  state the buttons are drawn from.\<close>

theorem toggle_without_stream_counterexample:
  "localStream (initial (Some 1)) = None \<and>
   toggleMute (initial (Some 1)) \<noteq> initial (Some 1) \<and>
   isMuted (toggleMute (initial (Some 1))) \<and>
   toggleVideo (initial (Some 1)) \<noteq> initial (Some 1) \<and>
   isVideoOff (toggleVideo (initial (Some 1)))"
  by (simp add: initial_def toggleMute_def toggleVideo_def)

section \<open>Screen share\<close>

text \<open>
  C5, as the code has it. \<open>startScreenShare\<close> sends no signaling message and makes no call
  on any peer connection: no offer is issued, the screen track is attached to no peer,
  and no peer is disturbed. What it does: when the display capture is granted, it sets
  \<open>screenStream\<close> to the stream and \<open>isScreenSharing\<close> to true (and writes to the console
  when the stream has no video track); when the capture fails, it only writes the failure
  to the console. Nothing else changes.
\<close>

theorem screen_share_no_renegotiation:
  "pcRef (startScreenShare e s) = pcRef s \<and> sent (startScreenShare e s) = sent s \<and>
   peers (startScreenShare e s) = peers s \<and>
   localStream (startScreenShare e s) = localStream s \<and>
   (display_media e = None \<longrightarrow>
      startScreenShare e s = s\<lparr>console := console s @ [''Screen share failed:'']\<rparr>) \<and>
   (\<forall>st. display_media e = Some st \<longrightarrow>
      startScreenShare e s =
        s\<lparr>screenStream := Some st, isScreenSharing := True,
          console := console s @
            (if filter (\<lambda>t. kind t = Video) (tracks st) = [] then [''Screen share failed:'']
             else [])\<rparr>)"
  by (simp add: startScreenShare_def Let_def split: option.split)

theorem screen_share_no_renegotiation_witness:
  "display_media lenient = Some screen \<and>
   startScreenShare lenient (run [(lenient, Signal (join_from 2))] in_call) =
     (run [(lenient, Signal (join_from 2))] in_call)\<lparr>screenStream := Some screen, isScreenSharing := True\<rparr> \<and>
   display_media no_display = None \<and>
   startScreenShare no_display in_call = in_call\<lparr>console := [''Screen share failed:'']\<rparr>"
  using screen_share_no_renegotiation [of lenient "run [(lenient, Signal (join_from 2))] in_call"]
    screen_share_no_renegotiation [of no_display in_call]
  by (simp add: ex_defs code_defs)

text \<open>Participant 1 has a connection to participant 2, the offer sent and no answer yet.
  Screen share starts; the connection has received no further call and the only offer
  sent is the first one.\<close>

theorem screen_share_counterexample:
  "pcRef (run [(lenient, Signal (join_from 2))] in_call) 2 =
     Some \<lparr>pc_handle = 0, calls = [AddTrack 11 10, AddTrack 12 10, CreateOffer,
            SetLocalDescription 100]\<rparr> \<and>
   pcRef (run [(lenient, Signal (join_from 2)), (lenient, StartScreenShare)] in_call) 2 =
     Some \<lparr>pc_handle = 0, calls = [AddTrack 11 10, AddTrack 12 10, CreateOffer,
            SetLocalDescription 100]\<rparr> \<and>
   screenStream (run [(lenient, Signal (join_from 2)), (lenient, StartScreenShare)] in_call) =
     Some screen \<and>
   sent (run [(lenient, Signal (join_from 2)), (lenient, StartScreenShare)] in_call) =
     sent (run [(lenient, Signal (join_from 2))] in_call) \<and>
   length (filter (\<lambda>m. type m = ''offer'')
     (sent (run [(lenient, Signal (join_from 2)), (lenient, StartScreenShare)] in_call))) = 1"
  by (simp add: ex_defs code_defs)

section \<open>Hanging up\<close>

text \<open>
  C7, as the code has it. A second \<open>hangUp\<close> raises nothing and leaves what the first one
  left, as far as handles, ended tracks, closed connections and the keys of the peer map
  go. But \<open>hangUp\<close> has no guard: each call tells every local and screen-share track to
  stop, every connection to close and calls \<open>onClose\<close>, so after two calls every resource
  has received its release call twice.
\<close>

theorem hangUp_twice:
  "terminal_view (hangUp (hangUp s)) = terminal_view (hangUp s) \<and>
   map_option (map stop_calls \<circ> tracks) (localStream (hangUp (hangUp s))) =
     map_option (map (\<lambda>t. stop_calls t + 2) \<circ> tracks) (localStream s) \<and>
   map_option (map stop_calls \<circ> tracks) (screenStream (hangUp (hangUp s))) =
     map_option (map (\<lambda>t. stop_calls t + 2) \<circ> tracks) (screenStream s) \<and>
   map_option calls (pcRef (hangUp (hangUp s)) k) =
     map_option (\<lambda>p. calls p @ [Close, Close]) (pcRef s k) \<and>
   onClose_calls (hangUp (hangUp s)) = onClose_calls s + 2"
  by (simp add: terminal_view_def hangUp_def stop_tracks_def stop_def close_def closed_def
      ended_def option.map_comp o_def fun_eq_iff)

text \<open>In a call with participant 2: one \<open>hangUp\<close> stops each local track once, two stop it
  twice and close the connection twice.\<close>

theorem hangUp_twice_counterexample:
  "map_option (map stop_calls \<circ> tracks) (localStream (hangUp in_call)) = Some [1, 1] \<and>
   map_option (map stop_calls \<circ> tracks) (localStream (hangUp (hangUp in_call))) = Some [2, 2] \<and>
   map_option calls (pcRef (hangUp (hangUp (run [(lenient, Signal (join_from 2))] in_call))) 2) =
     Some [AddTrack 11 10, AddTrack 12 10, CreateOffer, SetLocalDescription 100, Close, Close] \<and>
   onClose_calls (hangUp (hangUp in_call)) = 2"
  by (simp add: ex_defs code_defs)

section \<open>Candidates\<close>

text \<open>
  C1, as the code has it. An \<open>ice-candidate\<close> addressed to the local participant, from a
  participant whose connection exists, is handed to \<open>addIceCandidate\<close> at once, whether or
  not a remote description has been set; there is no queue. If the transport accepts the
  call, the candidate is on the connection, after the calls made before; if the transport
  rejects it, the handler fails, the state is as before, and the candidate is kept nowhere.
\<close>

theorem candidate_applied_at_once:
  assumes "type data = ''ice-candidate''" and "candidate data = Some c"
    and "to_user data = user s" and "from_user data = Some pid"
    and "pid \<noteq> 0" and "Some pid \<noteq> user s" and "pcRef s pid = Some p"
  shows "handleSignal e data s =
           (if accepts e p (AddIceCandidate c)
            then (s\<lparr>pcRef := (pcRef s)(pid \<mapsto> p\<lparr>calls := calls p @ [AddIceCandidate c]\<rparr>)\<rparr>, None)
            else (s, Some (TransportError (AddIceCandidate c))))"
  using assms by (simp add: handleSignal_def pc_do_def store_pc_def)

theorem candidate_applied_at_once_witness:
  "handleSignal lenient (candidate_from 2 1 7) (run_signals [(lenient, join_from 2)] in_call) =
     ((run_signals [(lenient, join_from 2)] in_call)
        \<lparr>pcRef := [2 \<mapsto> \<lparr>pc_handle = 0, calls = [AddTrack 11 10, AddTrack 12 10, CreateOffer,
                     SetLocalDescription 100, AddIceCandidate 7]\<rparr>]\<rparr>, None)"
  using candidate_applied_at_once [of "candidate_from 2 1 7" 7
      "run_signals [(lenient, join_from 2)] in_call" 2
      "\<lparr>pc_handle = 0, calls = [AddTrack 11 10, AddTrack 12 10, CreateOffer, SetLocalDescription 100]\<rparr>"
      lenient]
  by (simp add: ex_defs code_defs)

text \<open>Participant 2 joins, then its candidate 7 comes before its answer 9. On a transport
  that rejects a candidate before the remote description, the candidate is never applied,
  and the connection does not end as it does when the candidate comes after the answer;
  on a transport that accepts it, the candidate is applied before the remote description.\<close>

theorem candidate_queue_counterexample:
  "map_option calls (pcRef (run_signals [(strict, join_from 2), (strict, candidate_from 2 1 7),
       (strict, answer_from 2 1 9)] in_call) 2) =
     Some [AddTrack 11 10, AddTrack 12 10, CreateOffer, SetLocalDescription 100,
           SetRemoteDescription (Some 9)] \<and>
   map_option calls (pcRef (run_signals [(strict, join_from 2), (strict, answer_from 2 1 9),
       (strict, candidate_from 2 1 7)] in_call) 2) =
     Some [AddTrack 11 10, AddTrack 12 10, CreateOffer, SetLocalDescription 100,
           SetRemoteDescription (Some 9), AddIceCandidate 7] \<and>
   map_option calls (pcRef (run_signals [(lenient, join_from 2), (lenient, candidate_from 2 1 7),
       (lenient, answer_from 2 1 9)] in_call) 2) =
     Some [AddTrack 11 10, AddTrack 12 10, CreateOffer, SetLocalDescription 100,
           AddIceCandidate 7, SetRemoteDescription (Some 9)]"
  by (simp add: ex_defs code_defs)

section \<open>A call the transport rejects\<close>

lemma addTracks_appends:
  "addTracks e sid ts p = (p', r) \<Longrightarrow>
     \<exists>cs. Close \<notin> set cs \<and> p' = p\<lparr>calls := calls p @ cs\<rparr>"
proof (induction ts arbitrary: p)
  case Nil
  then show ?case by (intro exI [of _ "[]"]) simp
next
  case (Cons t ts)
  show ?case
  proof (cases "accepts e p (AddTrack (track_id t) sid)")
    case False
    with Cons.prems show ?thesis by (intro exI [of _ "[]"]) (simp add: pc_do_def)
  next
    case True
    let ?q = "p\<lparr>calls := calls p @ [AddTrack (track_id t) sid]\<rparr>"
    from True Cons.prems have "addTracks e sid ts ?q = (p', r)" by (simp add: pc_do_def)
    from Cons.IH [OF this] obtain cs where "Close \<notin> set cs" "p' = ?q\<lparr>calls := calls ?q @ cs\<rparr>"
      by blast
    then show ?thesis by (intro exI [of _ "AddTrack (track_id t) sid # cs"]) simp
  qed
qed

lemma offer_to_fails:
  assumes "offer_to e pid st p s = (s', Some err)"
  shows "\<exists>cs. Close \<notin> set cs \<and> s' = s\<lparr>pcRef := (pcRef s)(pid \<mapsto> p\<lparr>calls := calls p @ cs\<rparr>)\<rparr>"
proof -
  obtain p1 r where a: "addTracks e (stream_id st) (tracks st) p = (p1, r)" by fastforce
  from addTracks_appends [OF a] obtain cs where cs: "Close \<notin> set cs" "p1 = p\<lparr>calls := calls p @ cs\<rparr>"
    by blast
  show ?thesis
  proof (cases r)
    case (Some x)
    with assms a cs show ?thesis by (intro exI [of _ cs]) (simp add: offer_to_def store_pc_def)
  next
    case None
    show ?thesis
    proof (cases "accepts e p1 CreateOffer")
      case False
      with assms a cs None show ?thesis
        by (intro exI [of _ cs]) (simp add: offer_to_def store_pc_def pc_do_def)
    next
      case True
      with assms a cs None show ?thesis
        by (intro exI [of _ "cs @ [CreateOffer]"])
           (simp add: offer_to_def store_pc_def pc_do_def split: if_splits)
    qed
  qed
qed

lemma answer_to_fails:
  assumes "answer_to e pid off st p s = (s', Some err)"
  shows "\<exists>cs. Close \<notin> set cs \<and> s' = s\<lparr>pcRef := (pcRef s)(pid \<mapsto> p\<lparr>calls := calls p @ cs\<rparr>)\<rparr>"
proof -
  obtain p1 r where a: "addTracks e (stream_id st) (tracks st) p = (p1, r)" by fastforce
  from addTracks_appends [OF a] obtain cs where cs: "Close \<notin> set cs" "p1 = p\<lparr>calls := calls p @ cs\<rparr>"
    by blast
  show ?thesis
  proof (cases r)
    case (Some x)
    with assms a cs show ?thesis by (intro exI [of _ cs]) (simp add: answer_to_def store_pc_def)
  next
    case None
    note r = None
    show ?thesis
    proof (cases "accepts e p1 (SetRemoteDescription off)")
      case False
      with assms a cs r show ?thesis
        by (intro exI [of _ cs]) (simp add: answer_to_def store_pc_def pc_do_def)
    next
      case True
      note srd = True
      let ?p2 = "p1\<lparr>calls := calls p1 @ [SetRemoteDescription off]\<rparr>"
      show ?thesis
      proof (cases "accepts e ?p2 CreateAnswer")
        case False
        with assms a cs r srd show ?thesis
          by (intro exI [of _ "cs @ [SetRemoteDescription off]"])
             (simp add: answer_to_def store_pc_def pc_do_def)
      next
        case True
        with assms a cs r srd show ?thesis
          by (intro exI [of _ "cs @ [SetRemoteDescription off, CreateAnswer]"])
             (simp add: answer_to_def store_pc_def pc_do_def split: if_splits)
      qed
    qed
  qed
qed

lemma createPeerConnection_result:
  assumes "createPeerConnection pid s = (p, s2)"
  shows "extends (pcRef s pid) p \<and> pcRef s2 = (pcRef s)(pid \<mapsto> p) \<and> sent s2 = sent s \<and>
         peers s2 = peers s \<and> onClose_calls s2 = onClose_calls s \<and>
         localStream s2 = localStream s \<and> user s2 = user s \<and> joinSentRef s2 = joinSentRef s \<and>
         connected s2 = connected s"
proof (cases "pcRef s pid")
  case None
  with assms show ?thesis
    by (auto simp: createPeerConnection_def extends_def Let_def)
next
  case (Some q)
  with assms have "p = q" "s2 = s" by (simp_all add: createPeerConnection_def)
  with Some show ?thesis by (auto simp: extends_def fun_eq_iff)
qed

lemma acquire_result:
  assumes "acquire e s = (r, s1)"
  shows "pcRef s1 = pcRef s \<and> sent s1 = sent s \<and> peers s1 = peers s \<and>
         onClose_calls s1 = onClose_calls s \<and> user s1 = user s \<and>
         joinSentRef s1 = joinSentRef s \<and> connected s1 = connected s \<and>
         (localStream s \<noteq> None \<longrightarrow> s1 = s) \<and>
         (localStream s1 = None) = (r = None) \<and>
         (r = None) = (localStream s = None \<and> user_media e = None)"
  using assms by (auto simp: acquire_def split: option.splits)

lemma extends_more:
  "extends old p \<Longrightarrow> Close \<notin> set cs \<Longrightarrow> extends old (p\<lparr>calls := calls p @ cs\<rparr>)"
  unfolding extends_def
  by (cases old) (auto intro: exI [of _ "_ @ cs"])

lemma transport_error_frame:
  assumes "handleSignal e data s = (s', Some (TransportError c))"
    and "from_user data = Some pid"
  shows "(\<exists>p'. pcRef s' pid = Some p' \<and> extends (pcRef s pid) p') \<and>
         (\<forall>q. q \<noteq> pid \<longrightarrow> pcRef s' q = pcRef s q) \<and>
         sent s' = sent s \<and> peers s' = peers s \<and> onClose_calls s' = onClose_calls s"
proof -
  have guard: "pid \<noteq> 0" "Some pid \<noteq> user s"
    using assms by (auto simp: handleSignal_def split: if_splits)
  consider (join) "type data = ''join''"
    | (offer) "type data \<noteq> ''join''" "type data = ''offer'' \<and> to_user data = user s"
    | (answer) "type data \<noteq> ''join''" "\<not> (type data = ''offer'' \<and> to_user data = user s)"
        "type data = ''answer'' \<and> to_user data = user s"
    | (ice) "type data \<noteq> ''join''" "\<not> (type data = ''offer'' \<and> to_user data = user s)"
        "\<not> (type data = ''answer'' \<and> to_user data = user s)"
        "type data = ''ice-candidate'' \<and> candidate data \<noteq> None \<and> to_user data = user s"
    | (other) "type data \<noteq> ''join''" "\<not> (type data = ''offer'' \<and> to_user data = user s)"
        "\<not> (type data = ''answer'' \<and> to_user data = user s)"
        "\<not> (type data = ''ice-candidate'' \<and> candidate data \<noteq> None \<and> to_user data = user s)"
    by blast
  then show ?thesis
  proof cases
    case join
    obtain r s1 where a: "acquire e s = (r, s1)" by fastforce
    with assms guard join obtain st where r: "r = Some st"
      by (cases r) (auto simp: handleSignal_def)
    obtain p s2 where c: "createPeerConnection pid s1 = (p, s2)" by fastforce
    from assms guard join a r c have "offer_to e pid st p s2 = (s', Some (TransportError c))"
      by (simp add: handleSignal_def)
    from offer_to_fails [OF this] obtain cs where
      cs: "Close \<notin> set cs" "s' = s2\<lparr>pcRef := (pcRef s2)(pid \<mapsto> p\<lparr>calls := calls p @ cs\<rparr>)\<rparr>"
      by blast
    from acquire_result [OF a] createPeerConnection_result [OF c] cs
    show ?thesis by (simp add: extends_more)
  next
    case offer
    obtain p s1 where c: "createPeerConnection pid s = (p, s1)" by fastforce
    obtain r s2 where a: "acquire e s1 = (r, s2)" by fastforce
    with assms guard offer c obtain st where r: "r = Some st"
      by (cases r) (auto simp: handleSignal_def)
    from assms guard offer a r c
    have "answer_to e pid (offer data) st p s2 = (s', Some (TransportError c))"
      by (simp add: handleSignal_def)
    from answer_to_fails [OF this] obtain cs where
      cs: "Close \<notin> set cs" "s' = s2\<lparr>pcRef := (pcRef s2)(pid \<mapsto> p\<lparr>calls := calls p @ cs\<rparr>)\<rparr>"
      by blast
    from acquire_result [OF a] createPeerConnection_result [OF c] cs
    show ?thesis by (simp add: extends_more)
  next
    case answer
    with assms guard obtain p where "pcRef s pid = Some p" "s' = s"
      by (auto simp: handleSignal_def pc_do_def split: option.splits if_splits)
    then show ?thesis by (auto simp: extends_def)
  next
    case ice
    with assms guard obtain p where "pcRef s pid = Some p" "s' = s"
      by (auto simp: handleSignal_def pc_do_def split: option.splits if_splits)
    then show ?thesis by (auto simp: extends_def)
  next
    case other
    with assms guard show ?thesis
      by (auto simp: handleSignal_def split: if_splits)
  qed
qed

lemma addTracks_accepted:
  "all_accepted e (map (\<lambda>t. AddTrack (track_id t) sid) ts @ rest) p \<Longrightarrow>
     addTracks e sid ts p = (p\<lparr>calls := calls p @ map (\<lambda>t. AddTrack (track_id t) sid) ts\<rparr>, None) \<and>
     all_accepted e rest (p\<lparr>calls := calls p @ map (\<lambda>t. AddTrack (track_id t) sid) ts\<rparr>)"
proof (induction ts arbitrary: p)
  case Nil
  then show ?case by simp
next
  case (Cons t ts)
  let ?q = "p\<lparr>calls := calls p @ [AddTrack (track_id t) sid]\<rparr>"
  from Cons.prems have acc: "accepts e p (AddTrack (track_id t) sid)"
    and rest: "all_accepted e (map (\<lambda>t. AddTrack (track_id t) sid) ts @ rest) ?q"
    by simp_all
  from Cons.IH [OF rest] acc show ?case by (simp add: pc_do_def)
qed

text \<open>
  C6, as the code has it. For a message from another participant \<open>pid\<close>: when the
  transport rejects the remote description of an \<open>answer\<close>, or a candidate, for a
  connection that exists, the handler fails with that error and the state is as before,
  the connection still in the map and not closed. When it rejects the remote description
  of an \<open>offer\<close> (the tracks having been added), the handler fails with that error and the
  connection stays in the map with the tracks added. And whenever the handler fails with
  an error of the transport, nothing is closed or removed: the connection of \<open>pid\<close> is in
  the map, with at most further calls none of which is \<open>close()\<close>; the connections of all
  other participants, the messages sent, the \<open>peers\<close> shown and the \<open>onClose\<close> calls are as
  before.
\<close>

theorem rejected_call_keeps_session:
  assumes "from_user data = Some pid" and "pid \<noteq> 0" and "Some pid \<noteq> user s"
  shows "(type data = ''answer'' \<and> to_user data = user s \<and> pcRef s pid = Some p \<and>
            \<not> accepts e p (SetRemoteDescription (answer data)) \<longrightarrow>
          handleSignal e data s = (s, Some (TransportError (SetRemoteDescription (answer data))))) \<and>
         (type data = ''ice-candidate'' \<and> candidate data = Some x \<and> to_user data = user s \<and>
            pcRef s pid = Some p \<and> \<not> accepts e p (AddIceCandidate x) \<longrightarrow>
          handleSignal e data s = (s, Some (TransportError (AddIceCandidate x)))) \<and>
         (type data = ''offer'' \<and> to_user data = user s \<and>
            createPeerConnection pid s = (q, s1) \<and> acquire e s1 = (Some st, s2) \<and>
            all_accepted e (track_calls st) q \<and>
            \<not> accepts e (q\<lparr>calls := calls q @ track_calls st\<rparr>) (SetRemoteDescription (offer data)) \<longrightarrow>
          handleSignal e data s =
            (s2\<lparr>pcRef := (pcRef s2)(pid \<mapsto> q\<lparr>calls := calls q @ track_calls st\<rparr>)\<rparr>,
             Some (TransportError (SetRemoteDescription (offer data))))) \<and>
         (\<forall>s' c. handleSignal e data s = (s', Some (TransportError c)) \<longrightarrow>
            (\<exists>p'. pcRef s' pid = Some p' \<and> extends (pcRef s pid) p') \<and>
            (\<forall>r. r \<noteq> pid \<longrightarrow> pcRef s' r = pcRef s r) \<and>
            sent s' = sent s \<and> peers s' = peers s \<and> onClose_calls s' = onClose_calls s)"
proof (intro conjI impI allI)
  assume "type data = ''answer'' \<and> to_user data = user s \<and> pcRef s pid = Some p \<and>
            \<not> accepts e p (SetRemoteDescription (answer data))"
  with assms show "handleSignal e data s = (s, Some (TransportError (SetRemoteDescription (answer data))))"
    by (simp add: handleSignal_def pc_do_def)
next
  assume "type data = ''ice-candidate'' \<and> candidate data = Some x \<and> to_user data = user s \<and>
            pcRef s pid = Some p \<and> \<not> accepts e p (AddIceCandidate x)"
  with assms show "handleSignal e data s = (s, Some (TransportError (AddIceCandidate x)))"
    by (simp add: handleSignal_def pc_do_def)
next
  assume h: "type data = ''offer'' \<and> to_user data = user s \<and>
            createPeerConnection pid s = (q, s1) \<and> acquire e s1 = (Some st, s2) \<and>
            all_accepted e (track_calls st) q \<and>
            \<not> accepts e (q\<lparr>calls := calls q @ track_calls st\<rparr>) (SetRemoteDescription (offer data))"
  from addTracks_accepted [of e "stream_id st" "tracks st" "[]" q] h
  have t: "addTracks e (stream_id st) (tracks st) q = (q\<lparr>calls := calls q @ track_calls st\<rparr>, None)"
    by (simp add: track_calls_def)
  have "answer_to e pid (offer data) st q s2 =
          (s2\<lparr>pcRef := (pcRef s2)(pid \<mapsto> q\<lparr>calls := calls q @ track_calls st\<rparr>)\<rparr>,
           Some (TransportError (SetRemoteDescription (offer data))))"
    using t h by (simp add: answer_to_def pc_do_def store_pc_def)
  with assms h show "handleSignal e data s =
            (s2\<lparr>pcRef := (pcRef s2)(pid \<mapsto> q\<lparr>calls := calls q @ track_calls st\<rparr>)\<rparr>,
             Some (TransportError (SetRemoteDescription (offer data))))"
    by (simp add: handleSignal_def)
next
  fix s' c
  assume h: "handleSignal e data s = (s', Some (TransportError c))"
  note f = transport_error_frame [OF h assms(1)]
  show "\<exists>p'. pcRef s' pid = Some p' \<and> extends (pcRef s pid) p'" using f by blast
  show "sent s' = sent s" using f by blast
  show "peers s' = peers s" using f by blast
  show "onClose_calls s' = onClose_calls s" using f by blast
  fix r assume "r \<noteq> pid"
  then show "pcRef s' r = pcRef s r" using f by blast
qed

theorem rejected_call_keeps_session_witness:
  "handleSignal rejecting (answer_from 2 1 9)
     (run_signals [(lenient, join_from 2), (lenient, join_from 3)] in_call) =
   (run_signals [(lenient, join_from 2), (lenient, join_from 3)] in_call,
    Some (TransportError (SetRemoteDescription (Some 9)))) \<and>
   handleSignal rejecting (candidate_from 2 1 7)
     (run_signals [(lenient, join_from 2), (lenient, join_from 3)] in_call) =
   (run_signals [(lenient, join_from 2), (lenient, join_from 3)] in_call,
    Some (TransportError (AddIceCandidate 7))) \<and>
   handleSignal rejecting (offer_from 2 1 5) in_call =
   (in_call\<lparr>pcRef := [2 \<mapsto> \<lparr>pc_handle = 0, calls = [AddTrack 11 10, AddTrack 12 10]\<rparr>],
       next_pc := 1\<rparr>,
    Some (TransportError (SetRemoteDescription (Some 5))))"
proof -
  let ?s = "run_signals [(lenient, join_from 2), (lenient, join_from 3)] in_call"
  let ?p = "\<lparr>pc_handle = 0, calls = [AddTrack 11 10, AddTrack 12 10, CreateOffer,
              SetLocalDescription 100]\<rparr>"
  let ?q = "\<lparr>pc_handle = 0, calls = []\<rparr>"
  let ?t = "in_call\<lparr>pcRef := [2 \<mapsto> ?q], next_pc := 1\<rparr>"
  have a: "handleSignal rejecting (answer_from 2 1 9) ?s =
             (?s, Some (TransportError (SetRemoteDescription (Some 9))))"
    using rejected_call_keeps_session [where data = "answer_from 2 1 9" and pid = 2 and s = ?s
        and p = ?p and e = rejecting]
    by (simp add: ex_defs code_defs)
  have b: "handleSignal rejecting (candidate_from 2 1 7) ?s =
             (?s, Some (TransportError (AddIceCandidate 7)))"
    using rejected_call_keeps_session [where data = "candidate_from 2 1 7" and pid = 2 and s = ?s
        and p = ?p and e = rejecting and x = 7]
    by (simp add: ex_defs code_defs)
  have c: "handleSignal rejecting (offer_from 2 1 5) in_call =
   (in_call\<lparr>pcRef := [2 \<mapsto> \<lparr>pc_handle = 0, calls = [AddTrack 11 10, AddTrack 12 10]\<rparr>],
       next_pc := 1\<rparr>,
    Some (TransportError (SetRemoteDescription (Some 5))))"
    using rejected_call_keeps_session [where data = "offer_from 2 1 5" and pid = 2 and s = in_call
        and q = ?q and ?s1.0 = ?t and st = cam and ?s2.0 = ?t and e = rejecting]
    by (simp add: ex_defs code_defs)
  from a b c show ?thesis by simp
qed

text \<open>In a call with participants 2 and 3, the transport rejects the answer of 2: the
  state is as before, with the connection of 2 in the map and not closed.\<close>

theorem negotiation_failure_counterexample:
  "handleSignal rejecting (answer_from 2 1 9)
     (run_signals [(lenient, join_from 2), (lenient, join_from 3)] in_call) =
   (run_signals [(lenient, join_from 2), (lenient, join_from 3)] in_call,
    Some (TransportError (SetRemoteDescription (Some 9)))) \<and>
   pcRef (run_signals [(lenient, join_from 2), (lenient, join_from 3)] in_call) 2 =
     Some \<lparr>pc_handle = 0, calls = [AddTrack 11 10, AddTrack 12 10, CreateOffer, SetLocalDescription 100]\<rparr> \<and>
   \<not> closed \<lparr>pc_handle = 0, calls = [AddTrack 11 10, AddTrack 12 10, CreateOffer, SetLocalDescription 100]\<rparr>"
  by (simp add: ex_defs code_defs closed_def)

section \<open>A repeated join\<close>






section \<open>The local join\<close>

lemma offer_to_frame:
  assumes "offer_to e pid st p s = (s', r)"
  shows "joinSentRef s' = joinSentRef s \<and> join_count s' = join_count s \<and>
         connected s' = connected s \<and> localStream s' = localStream s \<and> user s' = user s"
  using assms
  by (auto simp: offer_to_def store_pc_def send_def join_count_def blank_def pc_do_def
      split: prod.splits option.splits sum.splits if_splits)

lemma answer_to_frame:
  assumes "answer_to e pid off st p s = (s', r)"
  shows "joinSentRef s' = joinSentRef s \<and> join_count s' = join_count s \<and>
         connected s' = connected s \<and> localStream s' = localStream s \<and> user s' = user s"
  using assms
  by (auto simp: answer_to_def store_pc_def send_def join_count_def blank_def pc_do_def
      split: prod.splits option.splits sum.splits if_splits)

lemma acquire_frame:
  assumes "acquire e s = (r, s1)"
  shows "join_count s1 = join_count s"
  using assms by (auto simp: acquire_def join_count_def split: option.splits)

lemma createPeerConnection_frame:
  assumes "createPeerConnection pid s = (p, s2)"
  shows "join_count s2 = join_count s"
  using assms by (auto simp: createPeerConnection_def join_count_def Let_def split: option.splits)

lemma handleSignal_frame:
  "joinSentRef (fst (handleSignal e data s)) = joinSentRef s \<and>
   join_count (fst (handleSignal e data s)) = join_count s \<and>
   connected (fst (handleSignal e data s)) = connected s \<and>
   user (fst (handleSignal e data s)) = user s"
  (is "?P (fst (handleSignal e data s))")
proof (cases "from_user data")
  case None
  then show ?thesis by (simp add: handleSignal_def)
next
  case (Some pid)
  show ?thesis
  proof (cases "pid = 0 \<or> Some pid = user s")
    case True
    with Some show ?thesis by (simp add: handleSignal_def)
  next
    case False
    consider (join) "type data = ''join''"
      | (offer) "type data \<noteq> ''join''" "type data = ''offer'' \<and> to_user data = user s"
      | (answer) "type data \<noteq> ''join''" "\<not> (type data = ''offer'' \<and> to_user data = user s)"
          "type data = ''answer'' \<and> to_user data = user s"
      | (ice) "type data \<noteq> ''join''" "\<not> (type data = ''offer'' \<and> to_user data = user s)"
          "\<not> (type data = ''answer'' \<and> to_user data = user s)"
          "type data = ''ice-candidate'' \<and> candidate data \<noteq> None \<and> to_user data = user s"
      | (left) "type data \<noteq> ''join''" "\<not> (type data = ''offer'' \<and> to_user data = user s)"
          "\<not> (type data = ''answer'' \<and> to_user data = user s)"
          "\<not> (type data = ''ice-candidate'' \<and> candidate data \<noteq> None \<and> to_user data = user s)"
          "type data = ''user_left''"
      | (other) "type data \<noteq> ''join''" "\<not> (type data = ''offer'' \<and> to_user data = user s)"
          "\<not> (type data = ''answer'' \<and> to_user data = user s)"
          "\<not> (type data = ''ice-candidate'' \<and> candidate data \<noteq> None \<and> to_user data = user s)"
          "type data \<noteq> ''user_left''"
      by blast
    then show ?thesis
    proof cases
      case join
      obtain r s1 where a: "acquire e s = (r, s1)" by fastforce
      note fa = acquire_result [OF a] acquire_frame [OF a]
      show ?thesis
      proof (cases r)
        case None
        with Some False join a fa show ?thesis by (simp add: handleSignal_def)
      next
        case (Some st)
        obtain p s2 where c: "createPeerConnection pid s1 = (p, s2)" by fastforce
        note fc = createPeerConnection_result [OF c] createPeerConnection_frame [OF c]
        have h: "handleSignal e data s = offer_to e pid st p s2"
          using \<open>from_user data = Some pid\<close> False join a Some c by (simp add: handleSignal_def)
        from offer_to_frame [OF surjective_pairing, of e pid st p s2] fa fc
        show ?thesis unfolding h by simp
      qed
    next
      case offer
      obtain p s1 where c: "createPeerConnection pid s = (p, s1)" by fastforce
      note fc = createPeerConnection_result [OF c] createPeerConnection_frame [OF c]
      obtain r s2 where a: "acquire e s1 = (r, s2)" by fastforce
      note fa = acquire_result [OF a] acquire_frame [OF a]
      show ?thesis
      proof (cases r)
        case None
        with Some False offer a c fa fc show ?thesis by (simp add: handleSignal_def)
      next
        case (Some st)
        have h: "handleSignal e data s = answer_to e pid (offer data) st p s2"
          using \<open>from_user data = Some pid\<close> False offer a Some c by (simp add: handleSignal_def)
        from answer_to_frame [OF surjective_pairing, of e pid "offer data" st p s2] fa fc
        show ?thesis unfolding h by simp
      qed
    next
      case answer
      with Some False show ?thesis
        by (simp add: handleSignal_def store_pc_def pc_do_def join_count_def split: option.split)
    next
      case ice
      with Some False show ?thesis
        by (auto simp: handleSignal_def store_pc_def pc_do_def join_count_def split: option.split)
    next
      case left
      with Some False show ?thesis
        by (simp add: handleSignal_def user_left_def join_count_def split: option.split)
    next
      case other
      with Some False show ?thesis by (auto simp: handleSignal_def)
    qed
  qed
qed

lemma handle_frame:
  "joinSentRef (handle e ev s) = joinSentRef s \<and> join_count (handle e ev s) = join_count s"
proof (cases ev)
  case (Signal data)
  then show ?thesis using handleSignal_frame [of e data s] by simp
next
  case (OnIceCandidate pid c)
  then show ?thesis
    by (simp add: onicecandidate_def send_def join_count_def blank_def split: option.split)
qed (simp_all add: start_def toggleMute_def toggleVideo_def startScreenShare_def
      stopScreenShare_def hangUp_def ontrack_def join_count_def Let_def split: option.split)

lemma step_announced:
  assumes "announced s"
  shows "announced (step ev s) \<and>
         (joinSentRef (step ev s) \<longleftrightarrow> joinSentRef s \<or> gate_open (step ev s))"
proof -
  obtain e x where ev: "ev = (e, x)" by (cases ev)
  let ?h = "handle e x s"
  have h: "joinSentRef ?h = joinSentRef s" "join_count ?h = join_count s"
    using handle_frame [of e x s] by simp_all
  show ?thesis
  proof (cases "connected ?h \<and> localStream ?h \<noteq> None \<and> \<not> joinSentRef ?h")
    case True
    then show ?thesis
      using assms h
      by (simp add: ev step_def joinEffect_def send_def announced_def gate_open_def
          join_count_def blank_def)
  next
    case False
    then have "step ev s = ?h" by (auto simp: ev step_def joinEffect_def)
    with False assms h show ?thesis by (auto simp: announced_def gate_open_def)
  qed
qed

lemma run_snoc: "run (evs @ [ev]) s = step ev (run evs s)"
  by (induction evs arbitrary: s) simp_all

lemma run_announced:
  "announced (run evs (initial u)) \<and>
   (joinSentRef (run evs (initial u)) \<longleftrightarrow>
      (\<exists>n\<le>length evs. gate_open (run (take n evs) (initial u))))"
proof (induction evs rule: rev_induct)
  case Nil
  show ?case by (simp add: announced_def gate_open_def initial_def join_count_def)
next
  case (snoc ev evs)
  let ?s = "run evs (initial u)"
  from snoc have a: "announced ?s"
    and j: "joinSentRef ?s \<longleftrightarrow> (\<exists>n\<le>length evs. gate_open (run (take n evs) (initial u)))"
    by simp_all
  from step_announced [OF a, of ev]
  have a': "announced (step ev ?s)"
    and j': "joinSentRef (step ev ?s) \<longleftrightarrow> joinSentRef ?s \<or> gate_open (step ev ?s)"
    by simp_all
  have "(\<exists>n\<le>length (evs @ [ev]). gate_open (run (take n (evs @ [ev])) (initial u))) \<longleftrightarrow>
        (\<exists>n\<le>length evs. gate_open (run (take n evs) (initial u))) \<or> gate_open (step ev ?s)"
    (is "?L \<longleftrightarrow> ?A \<or> ?B")
  proof
    assume ?L
    then obtain n where n: "n \<le> Suc (length evs)" "gate_open (run (take n (evs @ [ev])) (initial u))"
      by auto
    show "?A \<or> ?B"
    proof (cases "n \<le> length evs")
      case True
      with n show ?thesis by auto
    next
      case False
      with n have "n = Suc (length evs)" by simp
      with n show ?thesis by (simp add: run_snoc)
    qed
  next
    assume "?A \<or> ?B"
    then show ?L
    proof
      assume ?A
      then obtain n where "n \<le> length evs" "gate_open (run (take n evs) (initial u))" by blast
      then show ?L by (intro exI [of _ n]) simp
    next
      assume ?B
      then show ?L by (intro exI [of _ "Suc (length evs)"]) (simp add: run_snoc)
    qed
  qed
  with a' j j' show ?case by (simp add: run_snoc)
qed

text \<open>
  C3. In every run of the component from its first render, whatever the events and the
  answers of the environment, \<open>join\<close> is handed to \<open>send\<close> at most once; and it has been sent,
  once, exactly when at some point of the run so far the channel was connected and the
  local stream was held, both at that point. So it is never sent before the two hold,
  and it is sent as soon as they do.
\<close>

theorem join_announced_once:
  "join_count (run evs (initial u)) \<le> 1 \<and>
   (join_count (run evs (initial u)) = 1 \<longleftrightarrow>
      (\<exists>n\<le>length evs. connected (run (take n evs) (initial u)) \<and>
                        localStream (run (take n evs) (initial u)) \<noteq> None))"
  using run_announced [of evs u]
  by (auto simp: announced_def gate_open_def split: if_splits)

theorem join_announced_once_witness:
  "join_count (run [(lenient, SocketConnected True)] (initial (Some 1))) = 0 \<and>
   join_count (run [(lenient, SocketConnected True), (lenient, Mount)] (initial (Some 1))) = 1 \<and>
   join_count (run [(lenient, SocketConnected True), (lenient, Mount),
     (lenient, SocketConnected False), (lenient, SocketConnected True), (lenient, Mount)]
     (initial (Some 1))) = 1"
  using join_announced_once [of "[(lenient, SocketConnected True), (lenient, Mount),
     (lenient, SocketConnected False), (lenient, SocketConnected True), (lenient, Mount)]" "Some 1"]
  by (simp add: ex_defs code_defs join_count_def)

section \<open>The keys of the peer map\<close>

lemma live_Cons:
  "{p. (p \<in> (D - {p. Rm m p}) \<union> {p. Op m p} \<and> (\<forall>m'\<in>set ms. \<not> Rm m' p)) \<or>
       (\<exists>xs x ys. ms = xs @ x # ys \<and> Op x p \<and> (\<forall>m'\<in>set ys. \<not> Rm m' p))} =
   {p. (p \<in> D \<and> (\<forall>m'\<in>set (m # ms). \<not> Rm m' p)) \<or>
       (\<exists>xs x ys. m # ms = xs @ x # ys \<and> Op x p \<and> (\<forall>m'\<in>set ys. \<not> Rm m' p))}"
  (is "?L = ?R")
proof (rule set_eqI)
  fix p
  have dec: "(\<exists>xs x ys. m # ms = xs @ x # ys \<and> Op x p \<and> (\<forall>m'\<in>set ys. \<not> Rm m' p)) \<longleftrightarrow>
             (Op m p \<and> (\<forall>m'\<in>set ms. \<not> Rm m' p)) \<or>
             (\<exists>xs x ys. ms = xs @ x # ys \<and> Op x p \<and> (\<forall>m'\<in>set ys. \<not> Rm m' p))"
    (is "?A \<longleftrightarrow> ?B \<or> ?C")
  proof
    assume ?A
    then obtain xs x ys where d: "m # ms = xs @ x # ys" "Op x p" "\<forall>m'\<in>set ys. \<not> Rm m' p"
      by blast
    show "?B \<or> ?C"
    proof (cases xs)
      case Nil
      with d show ?thesis by simp
    next
      case (Cons a as)
      with d have "ms = as @ x # ys" by simp
      with d show ?thesis by blast
    qed
  next
    assume "?B \<or> ?C"
    then show ?A
    proof
      assume ?B
      then have "m # ms = [] @ m # ms \<and> Op m p \<and> (\<forall>m'\<in>set ms. \<not> Rm m' p)" by simp
      then show ?A by blast
    next
      assume ?C
      then obtain xs x ys where "ms = xs @ x # ys" "Op x p" "\<forall>m'\<in>set ys. \<not> Rm m' p" by blast
      then have "m # ms = (m # xs) @ x # ys \<and> Op x p \<and> (\<forall>m'\<in>set ys. \<not> Rm m' p)" by simp
      then show ?A by blast
    qed
  qed
  show "p \<in> ?L \<longleftrightarrow> p \<in> ?R" unfolding mem_Collect_eq dec by auto
qed

lemma offer_to_dom: "dom (pcRef (fst (offer_to e pid st p s))) = insert pid (dom (pcRef s))"
  by (simp add: offer_to_def store_pc_def send_def pc_do_def split: prod.split option.split sum.split)

lemma answer_to_dom: "dom (pcRef (fst (answer_to e pid off st p s))) = insert pid (dom (pcRef s))"
  by (simp add: answer_to_def store_pc_def send_def pc_do_def split: prod.split option.split sum.split)

lemma handleSignal_dom:
  assumes media: "localStream s \<noteq> None \<or> user_media e \<noteq> None"
  shows "dom (pcRef (fst (handleSignal e m s))) =
           (dom (pcRef s) - {p. removes (user s) m p}) \<union> {p. opens (user s) m p} \<and>
         (localStream s \<noteq> None \<longrightarrow> localStream (fst (handleSignal e m s)) \<noteq> None)"
proof (cases "from_user m")
  case None
  then show ?thesis by (simp add: handleSignal_def opens_def removes_def)
next
  case (Some pid)
  show ?thesis
  proof (cases "pid = 0 \<or> Some pid = user s")
    case True
    with Some show ?thesis by (auto simp: handleSignal_def opens_def removes_def)
  next
    case False
    consider (join) "type m = ''join''"
      | (offer) "type m \<noteq> ''join''" "type m = ''offer'' \<and> to_user m = user s"
      | (answer) "type m \<noteq> ''join''" "\<not> (type m = ''offer'' \<and> to_user m = user s)"
          "type m = ''answer'' \<and> to_user m = user s"
      | (ice) "type m \<noteq> ''join''" "\<not> (type m = ''offer'' \<and> to_user m = user s)"
          "\<not> (type m = ''answer'' \<and> to_user m = user s)"
          "type m = ''ice-candidate'' \<and> candidate m \<noteq> None \<and> to_user m = user s"
      | (left) "type m \<noteq> ''join''" "\<not> (type m = ''offer'' \<and> to_user m = user s)"
          "\<not> (type m = ''answer'' \<and> to_user m = user s)"
          "\<not> (type m = ''ice-candidate'' \<and> candidate m \<noteq> None \<and> to_user m = user s)"
          "type m = ''user_left''"
      | (other) "type m \<noteq> ''join''" "\<not> (type m = ''offer'' \<and> to_user m = user s)"
          "\<not> (type m = ''answer'' \<and> to_user m = user s)"
          "\<not> (type m = ''ice-candidate'' \<and> candidate m \<noteq> None \<and> to_user m = user s)"
          "type m \<noteq> ''user_left''"
      by blast
    then show ?thesis
    proof cases
      case join
      have o: "{p. opens (user s) m p} = {pid}" and r: "{p. removes (user s) m p} = {}"
        using Some False join by (auto simp: opens_def removes_def)
      obtain r1 s1 where a: "acquire e s = (r1, s1)" by fastforce
      note fa = acquire_result [OF a]
      from fa media obtain st where st: "r1 = Some st" by (cases r1) auto
      obtain p s2 where c: "createPeerConnection pid s1 = (p, s2)" by fastforce
      note fc = createPeerConnection_result [OF c]
      have h: "handleSignal e m s = offer_to e pid st p s2"
        using Some False join a st c by (simp add: handleSignal_def)
      have "localStream (fst (offer_to e pid st p s2)) = localStream s2"
        using offer_to_frame [OF surjective_pairing, of e pid st p s2] by simp
      with fa fc st show ?thesis
        unfolding h o r by (auto simp: offer_to_dom)
    next
      case offer
      have o: "{p. opens (user s) m p} = {pid}" and r: "{p. removes (user s) m p} = {}"
        using Some False offer by (auto simp: opens_def removes_def)
      obtain p s1 where c: "createPeerConnection pid s = (p, s1)" by fastforce
      note fc = createPeerConnection_result [OF c]
      obtain r2 s2 where a: "acquire e s1 = (r2, s2)" by fastforce
      note fa = acquire_result [OF a]
      show ?thesis
      proof (cases r2)
        case None
        then have "handleSignal e m s = (s2, Some MediaError)"
          using Some False offer a c by (simp add: handleSignal_def)
        with fa fc None show ?thesis unfolding o r by auto
      next
        case (Some st)
        have h: "handleSignal e m s = answer_to e pid (offer m) st p s2"
          using \<open>from_user m = Some pid\<close> False offer a Some c by (simp add: handleSignal_def)
        have "localStream (fst (answer_to e pid (offer m) st p s2)) = localStream s2"
          using answer_to_frame [OF surjective_pairing, of e pid "offer m" st p s2] by simp
        with fa fc Some show ?thesis
          unfolding h o r by (auto simp: answer_to_dom)
      qed
    next
      case answer
      have o: "{p. opens (user s) m p} = {}" and r: "{p. removes (user s) m p} = {}"
        using Some False answer by (auto simp: opens_def removes_def)
      show ?thesis unfolding o r using Some False answer
        by (auto simp: handleSignal_def store_pc_def pc_do_def split: option.splits)
    next
      case ice
      have o: "{p. opens (user s) m p} = {}" and r: "{p. removes (user s) m p} = {}"
        using Some False ice by (auto simp: opens_def removes_def)
      show ?thesis unfolding o r using Some False ice
        by (auto simp: handleSignal_def store_pc_def pc_do_def split: option.splits)
    next
      case left
      have o: "{p. opens (user s) m p} = {}" and r: "{p. removes (user s) m p} = set_option (user_id m)"
        using Some False left by (auto simp: opens_def removes_def)
      show ?thesis unfolding o r using Some False left
        by (auto simp: handleSignal_def user_left_def split: option.splits)
    next
      case other
      have o: "{p. opens (user s) m p} = {}" and r: "{p. removes (user s) m p} = {}"
        using Some False other by (auto simp: opens_def removes_def)
      show ?thesis unfolding o r using Some False other
        by (auto simp: handleSignal_def)
    qed
  qed
qed

lemma run_signals_dom:
  assumes "localStream s \<noteq> None"
  shows "dom (pcRef (run_signals ems s)) =
           {p. (p \<in> dom (pcRef s) \<and> (\<forall>m'\<in>set (map snd ems). \<not> removes (user s) m' p)) \<or>
               (\<exists>xs m ys. map snd ems = xs @ m # ys \<and> opens (user s) m p \<and>
                  (\<forall>m'\<in>set ys. \<not> removes (user s) m' p))}"
  using assms
proof (induction ems arbitrary: s)
  case Nil
  show ?case by auto
next
  case (Cons em ems)
  let ?s1 = "fst (handleSignal (fst em) (snd em) s)"
  have media: "localStream s \<noteq> None \<or> user_media (fst em) \<noteq> None"
    using Cons.prems by simp
  note d = handleSignal_dom [OF media, of "snd em"]
  have u: "user ?s1 = user s"
    using handleSignal_frame [of "fst em" "snd em" s] by simp
  have "localStream ?s1 \<noteq> None"
    using Cons.prems d by simp
  from Cons.IH [OF this]
  have "dom (pcRef (run_signals (em # ems) s)) =
          {p. (p \<in> (dom (pcRef s) - {p. removes (user s) (snd em) p}) \<union> {p. opens (user s) (snd em) p} \<and>
                 (\<forall>m'\<in>set (map snd ems). \<not> removes (user s) m' p)) \<or>
              (\<exists>xs m ys. map snd ems = xs @ m # ys \<and> opens (user s) m p \<and>
                 (\<forall>m'\<in>set ys. \<not> removes (user s) m' p))}"
    using d u by simp
  also have "\<dots> =
          {p. (p \<in> dom (pcRef s) \<and> (\<forall>m'\<in>set (snd em # map snd ems). \<not> removes (user s) m' p)) \<or>
              (\<exists>xs m ys. snd em # map snd ems = xs @ m # ys \<and> opens (user s) m p \<and>
                 (\<forall>m'\<in>set ys. \<not> removes (user s) m' p))}"
    by (rule live_Cons)
  finally show ?case by simp
qed

text \<open>
  C2, as the code has it. Start with an empty peer map and the local stream held, and let
  the signaling messages be handled one at a time. After the sequence, the keys of \<open>pcRef\<close>
  are exactly the participants that sent a \<open>join\<close>, or an \<open>offer\<close> addressed to the local
  participant, and that no later \<open>user_left\<close> (from a sender that passes the guard) names
  in \<open>user_id\<close>. An \<open>answer\<close> or an \<open>ice-candidate\<close> makes no key.
\<close>

theorem peer_map_keys:
  assumes "pcRef s = Map.empty" and "localStream s \<noteq> None"
  shows "dom (pcRef (run_signals ems s)) =
           {p. \<exists>xs m ys. map snd ems = xs @ m # ys \<and> opens (user s) m p \<and>
                 (\<forall>m'\<in>set ys. \<not> removes (user s) m' p)}"
  using run_signals_dom [OF assms(2)] assms(1) by simp

theorem peer_map_keys_witness:
  "pcRef in_call = Map.empty \<and> localStream in_call \<noteq> None \<and>
   dom (pcRef (run_signals [(lenient, join_from 2), (lenient, answer_from 3 1 9),
      (lenient, offer_from 4 1 5), (lenient, left_from 4 2)] in_call)) = {4} \<and>
   {p. \<exists>xs m ys. [join_from 2, answer_from 3 1 9, offer_from 4 1 5, left_from 4 2] = xs @ m # ys \<and>
         opens (Some 1) m p \<and> (\<forall>m'\<in>set ys. \<not> removes (Some 1) m' p)} = {4}"
proof -
  have a: "pcRef in_call = Map.empty" by (simp add: ex_defs code_defs)
  have b: "localStream in_call \<noteq> None" by (simp add: ex_defs code_defs)
  have u: "user in_call = Some 1" by (simp add: ex_defs code_defs)
  have c: "dom (pcRef (run_signals [(lenient, join_from 2), (lenient, answer_from 3 1 9),
      (lenient, offer_from 4 1 5), (lenient, left_from 4 2)] in_call)) = {4}"
    by (simp add: ex_defs code_defs)
  from peer_map_keys [of in_call "[(lenient, join_from 2), (lenient, answer_from 3 1 9),
      (lenient, offer_from 4 1 5), (lenient, left_from 4 2)]"] a b u c
  show ?thesis by simp
qed

text \<open>Participant 2 sends an answer, or participant 3 a candidate, to participant 1, who
  has no connection to them: each has sent a message other than \<open>Left\<close>, and the map stays
  empty.\<close>

theorem peer_map_keys_counterexample:
  "dom (pcRef (run_signals [(lenient, answer_from 2 1 9)] in_call)) = {} \<and>
   spec_peer_set [answer_from 2 1 9] {} = {2} \<and>
   dom (pcRef (run_signals [(lenient, candidate_from 3 1 7)] in_call)) = {} \<and>
   spec_peer_set [candidate_from 3 1 7] {} = {3}"
  by (simp add: ex_defs code_defs)

section \<open>Failure of the first media acquisition\<close>

lemma offer_to_gum: "gum_calls (fst (offer_to e pid st p s)) = gum_calls s"
  by (simp add: offer_to_def store_pc_def send_def pc_do_def split: prod.split option.split sum.split)

lemma answer_to_gum: "gum_calls (fst (answer_to e pid off st p s)) = gum_calls s"
  by (simp add: answer_to_def store_pc_def send_def pc_do_def split: prod.split option.split sum.split)

lemma offer_to_localStream: "localStream (fst (offer_to e pid st p s)) = localStream s"
  using offer_to_frame [OF surjective_pairing, of e pid st p s] by simp

lemma answer_to_localStream: "localStream (fst (answer_to e pid off st p s)) = localStream s"
  using answer_to_frame [OF surjective_pairing, of e pid off st p s] by simp

lemma createPeerConnection_gum:
  "gum_calls (snd (createPeerConnection pid s)) = gum_calls s \<and>
   localStream (snd (createPeerConnection pid s)) = localStream s \<and>
   pid \<in> dom (pcRef (snd (createPeerConnection pid s)))"
  by (auto simp: createPeerConnection_def Let_def split: option.split)

lemma retry_after_failure:
  assumes none: "localStream t = None"
    and guard: "from_user data = Some pid" "pid \<noteq> 0" "Some pid \<noteq> user t"
    and kind: "type data = ''join'' \<or> (type data = ''offer'' \<and> to_user data = user t)"
  shows "gum_calls (fst (handleSignal e' data t)) = Suc (gum_calls t) \<and>
         localStream (fst (handleSignal e' data t)) = user_media e' \<and>
         (type data \<noteq> ''join'' \<longrightarrow> pid \<in> dom (pcRef (fst (handleSignal e' data t))))"
proof (cases "type data = ''join''")
  case True
  show ?thesis
  proof (cases "user_media e'")
    case None
    with True none guard show ?thesis by (simp add: handleSignal_def acquire_def)
  next
    case (Some st)
    let ?t1 = "t\<lparr>localStream := Some st, gum_calls := Suc (gum_calls t)\<rparr>"
    have a: "acquire e' t = (Some st, ?t1)" using none Some by (simp add: acquire_def)
    have h: "handleSignal e' data t =
               offer_to e' pid st (fst (createPeerConnection pid ?t1)) (snd (createPeerConnection pid ?t1))"
      using True guard a by (simp add: handleSignal_def case_prod_beta)
    show ?thesis
      unfolding h using True Some createPeerConnection_gum [of pid ?t1]
      by (simp add: offer_to_gum offer_to_localStream)
  qed
next
  case False
  with kind have o: "type data = ''offer''" "to_user data = user t" by simp_all
  let ?p = "fst (createPeerConnection pid t)"
  let ?t1 = "snd (createPeerConnection pid t)"
  note c = createPeerConnection_gum [of pid t]
  show ?thesis
  proof (cases "user_media e'")
    case None
    have a: "acquire e' ?t1 = (None, ?t1\<lparr>gum_calls := Suc (gum_calls ?t1)\<rparr>)"
      using none None c by (simp add: acquire_def)
    have "handleSignal e' data t = (?t1\<lparr>gum_calls := Suc (gum_calls ?t1)\<rparr>, Some MediaError)"
      using False o guard a by (simp add: handleSignal_def case_prod_beta)
    with c none None show ?thesis by simp
  next
    case (Some st)
    let ?t2 = "?t1\<lparr>localStream := Some st, gum_calls := Suc (gum_calls ?t1)\<rparr>"
    have a: "acquire e' ?t1 = (Some st, ?t2)"
      using none Some c by (simp add: acquire_def)
    have h: "handleSignal e' data t = answer_to e' pid (offer data) st ?p ?t2"
      using False o guard a by (simp add: handleSignal_def case_prod_beta)
    show ?thesis
      unfolding h using Some c
      by (simp add: answer_to_gum answer_to_localStream answer_to_dom)
  qed
qed

text \<open>
  C4, as the code has it. When the \<open>getUserMedia\<close> of the mount effect fails, the failure is
  written to the console and nothing else happens: no state the component renders
  changes, \<open>onClose\<close> is not called, nothing is sent. The failure is not final: the handler
  of the next \<open>join\<close>, or \<open>offer\<close> addressed to the local participant, from another
  participant calls \<open>getUserMedia\<close> once more and leaves as local stream what that call
  gives; and such an \<open>offer\<close> leaves a connection for its sender in the map, with or
  without a local stream.
\<close>

theorem media_failure_logged_only:
  assumes "user_media e = None" and "localStream s = None"
  shows "step (e, Mount) s =
           s\<lparr>gum_calls := Suc (gum_calls s), console := console s @ [''Media error:'']\<rparr> \<and>
         (\<forall>e' data pid.
            from_user data = Some pid \<and> pid \<noteq> 0 \<and> Some pid \<noteq> user s \<and>
            (type data = ''join'' \<or> (type data = ''offer'' \<and> to_user data = user s)) \<longrightarrow>
            gum_calls (fst (handleSignal e' data (step (e, Mount) s))) = Suc (Suc (gum_calls s)) \<and>
            localStream (fst (handleSignal e' data (step (e, Mount) s))) = user_media e' \<and>
            (type data \<noteq> ''join'' \<longrightarrow>
               pid \<in> dom (pcRef (fst (handleSignal e' data (step (e, Mount) s))))))"
proof -
  let ?t = "s\<lparr>gum_calls := Suc (gum_calls s), console := console s @ [''Media error:'']\<rparr>"
  have st: "step (e, Mount) s = ?t"
    using assms by (simp add: step_def start_def joinEffect_def)
  have t: "localStream ?t = None" "user ?t = user s" "gum_calls ?t = Suc (gum_calls s)"
    using assms by simp_all
  show ?thesis
    unfolding st
  proof (intro conjI allI impI)
    show "?t = ?t" ..
  next
    fix e' :: env and data :: signal and pid :: nat
    assume h: "from_user data = Some pid \<and> pid \<noteq> 0 \<and> Some pid \<noteq> user s \<and>
            (type data = ''join'' \<or> (type data = ''offer'' \<and> to_user data = user s))"
    then have g: "from_user data = Some pid" "pid \<noteq> 0" "Some pid \<noteq> user ?t"
      and k: "type data = ''join'' \<or> (type data = ''offer'' \<and> to_user data = user ?t)"
      by simp_all
    note r = retry_after_failure [OF t(1) g k, of e']
    show "gum_calls (fst (handleSignal e' data ?t)) = Suc (Suc (gum_calls s))"
      using r t(3) by simp
    show "localStream (fst (handleSignal e' data ?t)) = user_media e'" using r by simp
    assume "type data \<noteq> ''join''"
    then show "pid \<in> dom (pcRef (fst (handleSignal e' data ?t)))" using r by simp
  qed
qed

theorem media_failure_logged_only_witness:
  "user_media denied = None \<and> localStream (initial (Some 1)) = None \<and>
   step (denied, Mount) (initial (Some 1)) =
     (initial (Some 1))\<lparr>gum_calls := 1, console := [''Media error:'']\<rparr> \<and>
   gum_calls (fst (handleSignal lenient (join_from 2) (step (denied, Mount) (initial (Some 1))))) = 2 \<and>
   localStream (fst (handleSignal lenient (join_from 2) (step (denied, Mount) (initial (Some 1))))) =
     Some cam \<and>
   gum_calls (fst (handleSignal denied (offer_from 2 1 7) (step (denied, Mount) (initial (Some 1))))) = 2 \<and>
   localStream (fst (handleSignal denied (offer_from 2 1 7) (step (denied, Mount) (initial (Some 1))))) =
     None \<and>
   2 \<in> dom (pcRef (fst (handleSignal denied (offer_from 2 1 7) (step (denied, Mount) (initial (Some 1))))))"
proof -
  have a: "user_media denied = None" "localStream (initial (Some 1)) = None"
    by (simp_all add: ex_defs)
  note m = media_failure_logged_only [OF a]
  have j: "from_user (join_from 2) = Some 2 \<and> (2::nat) \<noteq> 0 \<and> Some 2 \<noteq> user (initial (Some 1)) \<and>
            (type (join_from 2) = ''join'' \<or>
             (type (join_from 2) = ''offer'' \<and> to_user (join_from 2) = user (initial (Some 1))))"
    by (simp add: ex_defs)
  have o: "from_user (offer_from 2 1 7) = Some 2 \<and> (2::nat) \<noteq> 0 \<and> Some 2 \<noteq> user (initial (Some 1)) \<and>
            (type (offer_from 2 1 7) = ''join'' \<or>
             (type (offer_from 2 1 7) = ''offer'' \<and> to_user (offer_from 2 1 7) = user (initial (Some 1))))"
    by (simp add: ex_defs)
  have t: "type (offer_from 2 1 7) \<noteq> ''join''" by (simp add: ex_defs)
  from m have m1: "step (denied, Mount) (initial (Some 1)) =
     (initial (Some 1))\<lparr>gum_calls := 1, console := [''Media error:'']\<rparr>"
    by (simp add: ex_defs)
  from m j have mj: "gum_calls (fst (handleSignal lenient (join_from 2) (step (denied, Mount) (initial (Some 1))))) = Suc (Suc (gum_calls (initial (Some 1))))"
    "localStream (fst (handleSignal lenient (join_from 2) (step (denied, Mount) (initial (Some 1))))) = user_media lenient"
    by blast+
  from m o t have mo: "gum_calls (fst (handleSignal denied (offer_from 2 1 7) (step (denied, Mount) (initial (Some 1))))) = Suc (Suc (gum_calls (initial (Some 1))))"
    "localStream (fst (handleSignal denied (offer_from 2 1 7) (step (denied, Mount) (initial (Some 1))))) = user_media denied"
    "2 \<in> dom (pcRef (fst (handleSignal denied (offer_from 2 1 7) (step (denied, Mount) (initial (Some 1))))))"
    by blast+
  have u: "user_media lenient = Some cam" "gum_calls (initial (Some 1)) = 0"
    by (simp_all add: ex_defs)
  from a m1 mj mo u show ?thesis by simp
qed

text \<open>After the failure the component is still mounted (\<open>onClose\<close> was not called) and
  shows no error. An \<open>offer\<close> from participant 2, with the camera still refused, then
  makes a connection although there is no local stream.\<close>

theorem media_failure_counterexample:
  "onClose_calls (run [(denied, Mount)] (initial (Some 1))) = 0 \<and>
   run [(denied, Mount)] (initial (Some 1)) =
     (initial (Some 1))\<lparr>gum_calls := 1, console := [''Media error:'']\<rparr> \<and>
   localStream (run [(denied, Mount), (denied, Signal (offer_from 2 1 7))] (initial (Some 1))) = None \<and>
   pcRef (run [(denied, Mount), (denied, Signal (offer_from 2 1 7))] (initial (Some 1))) 2 =
     Some \<lparr>pc_handle = 0, calls = []\<rparr> \<and>
   onClose_calls (run [(denied, Mount), (denied, Signal (offer_from 2 1 7))] (initial (Some 1))) = 0"
  by (simp add: ex_defs code_defs)

end
